theory Spec2Isabelle
  imports Main
begin

section \<open>The win\_servermanager state module\<close>

text \<open>
  The module \<^verbatim>\<open>salt/states/win_servermanager.py\<close> defines two state functions,
  \<^verbatim>\<open>installed(name, recurse, force)\<close> and \<^verbatim>\<open>removed(name)\<close>. Both build a report
  dictionary, read the installed features through \<^verbatim>\<open>__salt__\<close>, possibly call a
  mutating execution-module function, and return the report. The embedding makes
  explicit what the Python leaves implicit: the outside world the execution module
  acts on, the sequence of execution-module calls, and the exceptions raised.
\<close>

subsection \<open>Python values used by the module\<close>

text \<open>The two exceptions the module's own statements can raise, with their argument.\<close>

datatype py_error = KeyError string | NameError string

text \<open>
  The record an install or remove call returns (\<^verbatim>\<open>status\<close> in the source). The
  module reads its keys \<^verbatim>\<open>Success\<close>, \<^verbatim>\<open>DisplayName\<close> and \<^verbatim>\<open>ExitCode\<close>.
\<close>

record op_result =
  Success :: bool
  DisplayName :: string
  ExitCode :: int

text \<open>
  The snapshot \<^verbatim>\<open>list_installed()\<close> returns: a dictionary keyed by the short feature
  name. The module only tests keys for membership and hands the snapshot on.
\<close>

type_synonym feature_status = "(string \<times> string) list"

text \<open>
  The values stored in \<^verbatim>\<open>ret['changes']\<close>: the operation result under the key
  \<^verbatim>\<open>feature\<close> (line 72), or an old/new pair of a diff.
\<close>

datatype change_val = OpResult op_result | OldNew string string

type_synonym changes = "(string \<times> change_val) list"

text \<open>The report \<^verbatim>\<open>ret\<close>; \<^verbatim>\<open>result\<close> is \<^verbatim>\<open>True\<close>, \<^verbatim>\<open>False\<close> or \<^verbatim>\<open>None\<close>.\<close>

record report =
  name :: string
  result :: "bool option"
  changes :: changes
  comment :: string

subsection \<open>Dictionaries and strings\<close>

text \<open>\<^verbatim>\<open>k in d\<close> for a dictionary \<^verbatim>\<open>d\<close>.\<close>

definition dict_has :: "(string \<times> 'v) list \<Rightarrow> string \<Rightarrow> bool" where
  "dict_has d k = (k \<in> set (map fst d))"

text \<open>\<^verbatim>\<open>d[k]\<close>: a missing key raises \<^verbatim>\<open>KeyError\<close>.\<close>

definition dict_get :: "(string \<times> 'v) list \<Rightarrow> string \<Rightarrow> py_error + 'v" where
  "dict_get d k = (case map_of d k of None \<Rightarrow> Inl (KeyError k) | Some v \<Rightarrow> Inr v)"

text \<open>\<^verbatim>\<open>d[k] = v\<close>: overwrites in place or appends a new key.\<close>

fun dict_set :: "(string \<times> 'v) list \<Rightarrow> string \<Rightarrow> 'v \<Rightarrow> (string \<times> 'v) list" where
  "dict_set [] k v = [(k, v)]"
| "dict_set ((k', v') # d) k v = (if k' = k then (k, v) # d else (k', v') # dict_set d k v)"

text \<open>
  \<^verbatim>\<open>entry['ExitCode']\<close> for a value of \<^verbatim>\<open>ret['changes']\<close>: an operation result has
  the key, an old/new pair does not.
\<close>

fun exit_code_of :: "change_val \<Rightarrow> py_error + int" where
  "exit_code_of (OpResult st) = Inr (ExitCode st)"
| "exit_code_of (OldNew _ _) = Inl (KeyError ''ExitCode'')"

text \<open>\<^verbatim>\<open>sub in s\<close> for strings.\<close>

fun starts_with :: "string \<Rightarrow> string \<Rightarrow> bool" where
  "starts_with s [] = True"
| "starts_with [] (c # p) = False"
| "starts_with (a # s) (c # p) = (a = c \<and> starts_with s p)"

fun str_contains :: "string \<Rightarrow> string \<Rightarrow> bool" where
  "str_contains [] sub = (sub = [])"
| "str_contains (a # s) sub = (starts_with (a # s) sub \<or> str_contains s sub)"

text \<open>What \<^verbatim>\<open>str.format\<close> prints for a bool and for an int.\<close>

definition str_bool :: "bool \<Rightarrow> string" where
  "str_bool b = (if b then ''True'' else ''False'')"

function str_nat :: "nat \<Rightarrow> string" where
  "str_nat n =
     (if n < 10 then [''0123456789'' ! n]
      else str_nat (n div 10) @ [''0123456789'' ! (n mod 10)])"
  by pat_completeness auto
termination
  by (relation "measure id") auto

definition str_int :: "int \<Rightarrow> string" where
  "str_int i = (if i < 0 then ''-'' @ str_nat (nat (- i)) else str_nat (nat i))"

subsection \<open>The module's environment\<close>

text \<open>
  The names the loader injects and the module reads: the three execution-module
  functions looked up in \<^verbatim>\<open>__salt__\<close> and the flag \<^verbatim>\<open>__opts__['test']\<close>. The execution
  module acts on the machine, a state of type \<open>'w\<close>: each function takes the machine
  state and returns its value with the state it leaves. The execution module and
  \<^verbatim>\<open>salt.utils\<close> are not part of the file, so they are parameters:
  \<open>salt_utils_compare_dicts\<close> stands for the function \<^verbatim>\<open>salt.utils.compare_dicts\<close>.
  Exceptions raised inside the execution module are not modelled.
\<close>

record 'w loader_context =
  salt_list_installed :: "'w \<Rightarrow> feature_status \<times> 'w"
  salt_install :: "string \<Rightarrow> bool \<Rightarrow> 'w \<Rightarrow> op_result \<times> 'w"
  salt_remove :: "string \<Rightarrow> 'w \<Rightarrow> op_result \<times> 'w"
  salt_utils_compare_dicts :: "feature_status \<Rightarrow> feature_status \<Rightarrow> changes"
  opts_test :: bool

text \<open>
  The global names bound when a function of the module runs, Python's own
  double-underscore names and the builtins apart: the three functions the file
  defines and the two dictionaries the loader injects, which the functions read.
  The file has no \<^verbatim>\<open>import\<close> statement, so it binds no module name; reading a
  global name that is not bound raises \<^verbatim>\<open>NameError\<close>. Line 75 and line 128 read
  the global name \<^verbatim>\<open>salt\<close> before anything else on their right-hand side.
\<close>

definition module_globals :: "string list" where
  "module_globals = [''__virtual__'', ''installed'', ''removed'', ''__salt__'', ''__opts__'']"

definition load_global :: "string \<Rightarrow> py_error + unit" where
  "load_global n = (if n \<in> set module_globals then Inr () else Inl (NameError n))"

text \<open>The execution-module calls one invocation makes, in order.\<close>

datatype call = ListInstalled | Install string bool | Remove string

fun is_mutating :: "call \<Rightarrow> bool" where
  "is_mutating ListInstalled = False"
| "is_mutating (Install _ _) = True"
| "is_mutating (Remove _) = True"

text \<open>
  One invocation's outcome: the report returned or the exception raised, the calls
  made, and the machine state left behind.
\<close>

record 'w run =
  outcome :: "py_error + report"
  trace :: "call list"
  world :: 'w

subsection \<open>installed\<close>

text \<open>
  Lines 61 to 77, reached from both branches of lines 53 to 56 that do not return.
  \<open>ret\<close> is the report so far, \<open>old\<close> the snapshot of line 52 and \<open>w1\<close> the machine
  state after that read.
\<close>

definition installed_apply ::
  "'w loader_context \<Rightarrow> string \<Rightarrow> bool \<Rightarrow> feature_status \<Rightarrow> 'w \<Rightarrow> report \<Rightarrow> 'w run" where
  "installed_apply ctx nm recurse old w1 ret =
     (if opts_test ctx then \<comment> \<open>lines 61 to 63\<close>
        \<lparr>outcome = Inr (ret\<lparr>result := None\<rparr>), trace = [ListInstalled], world = w1\<rparr>
      else
        let (status, w2) = salt_install ctx nm recurse w1; \<comment> \<open>line 66\<close>
            tr2 = [ListInstalled, Install nm recurse];
            ret1 = ret\<lparr>result := Some (Success status)\<rparr> \<comment> \<open>line 68\<close>
        in
          case (if \<not> Success status then \<comment> \<open>lines 69 and 70\<close>
                  (case dict_get (changes ret1) ''feature'' of
                     Inl e \<Rightarrow> Inl e
                   | Inr entry \<Rightarrow>
                       (case exit_code_of entry of
                          Inl e \<Rightarrow> Inl e
                        | Inr code \<Rightarrow>
                            Inr (ret1\<lparr>comment :=
                                   ''Failed to install '' @ nm @ '': '' @ str_int code\<rparr>)))
                else Inr ret1) of
            Inl e \<Rightarrow> \<lparr>outcome = Inl e, trace = tr2, world = w2\<rparr>
          | Inr ret2 \<Rightarrow>
              let ret3 = \<comment> \<open>lines 71 and 72\<close>
                    (if \<not> str_contains (DisplayName status) ''already installed''
                     then ret2\<lparr>changes := dict_set (changes ret2) ''feature'' (OpResult status)\<rparr>
                     else ret2);
                  (new, w3) = salt_list_installed ctx w2; \<comment> \<open>line 74\<close>
                  tr3 = tr2 @ [ListInstalled]
              in
                (case load_global ''salt'' of \<comment> \<open>line 75\<close>
                   Inl e \<Rightarrow> \<lparr>outcome = Inl e, trace = tr3, world = w3\<rparr>
                 | Inr _ \<Rightarrow>
                     \<lparr>outcome = Inr (ret3\<lparr>changes := salt_utils_compare_dicts ctx old new\<rparr>),
                      trace = tr3, world = w3\<rparr>))"

text \<open>Lines 46 to 59, then \<open>installed_apply\<close> for the rest of the body.\<close>

definition installed :: "'w loader_context \<Rightarrow> string \<Rightarrow> bool \<Rightarrow> bool \<Rightarrow> 'w \<Rightarrow> 'w run" where
  "installed ctx nm recurse force w0 =
     (let ret = \<lparr>name = nm, result = Some True, changes = [], comment = ''''\<rparr>;
          (old, w1) = salt_list_installed ctx w0 \<comment> \<open>line 52\<close>
      in
        if \<not> dict_has old nm then \<comment> \<open>line 53\<close>
          installed_apply ctx nm recurse old w1
            (ret\<lparr>comment := nm @ '' will be installed recurse='' @ str_bool recurse\<rparr>)
        else if force \<and> recurse then \<comment> \<open>line 55\<close>
          installed_apply ctx nm recurse old w1
            (ret\<lparr>comment := nm @ '' already installed but might install sub-features''\<rparr>)
        else
          \<lparr>outcome = Inr (ret\<lparr>comment := ''The feature '' @ nm @ '' is already installed''\<rparr>),
           trace = [ListInstalled], world = w1\<rparr>)"

subsection \<open>removed\<close>

text \<open>Lines 104 to 130.\<close>

definition removed :: "'w loader_context \<Rightarrow> string \<Rightarrow> 'w \<Rightarrow> 'w run" where
  "removed ctx nm w0 =
     (let ret = \<lparr>name = nm, result = Some True, changes = [], comment = ''''\<rparr>;
          (old, w1) = salt_list_installed ctx w0 \<comment> \<open>line 109\<close>
      in
        if \<not> dict_has old nm then \<comment> \<open>lines 112 to 114\<close>
          \<lparr>outcome = Inr (ret\<lparr>comment := ''The feature '' @ nm @ '' is not installed''\<rparr>),
           trace = [ListInstalled], world = w1\<rparr>
        else
          let ret0 = ret\<lparr>comment := nm @ '' will be removed''\<rparr> in \<comment> \<open>line 111\<close>
          if opts_test ctx then \<comment> \<open>lines 116 to 118\<close>
            \<lparr>outcome = Inr (ret0\<lparr>result := None\<rparr>), trace = [ListInstalled], world = w1\<rparr>
          else
            let (status, w2) = salt_remove ctx nm w1; \<comment> \<open>line 121\<close>
                tr2 = [ListInstalled, Remove nm];
                ret1 = ret0\<lparr>result := Some (Success status)\<rparr> \<comment> \<open>line 123\<close>
            in
              case (if \<not> Success status then \<comment> \<open>lines 124 and 125\<close>
                      (case dict_get (changes ret1) ''feature'' of
                         Inl e \<Rightarrow> Inl e
                       | Inr entry \<Rightarrow>
                           (case exit_code_of entry of
                              Inl e \<Rightarrow> Inl e
                            | Inr code \<Rightarrow>
                                Inr (ret1\<lparr>comment :=
                                       ''Failed to uninstall the feature '' @ str_int code\<rparr>)))
                    else Inr ret1) of
                Inl e \<Rightarrow> \<lparr>outcome = Inl e, trace = tr2, world = w2\<rparr>
              | Inr ret2 \<Rightarrow>
                  let (new, w3) = salt_list_installed ctx w2; \<comment> \<open>line 127\<close>
                      tr3 = tr2 @ [ListInstalled]
                  in
                    (case load_global ''salt'' of \<comment> \<open>line 128\<close>
                       Inl e \<Rightarrow> \<lparr>outcome = Inl e, trace = tr3, world = w3\<rparr>
                     | Inr _ \<Rightarrow>
                         \<lparr>outcome = Inr (ret2\<lparr>changes := salt_utils_compare_dicts ctx old new\<rparr>),
                          trace = tr3, world = w3\<rparr>))"

subsection \<open>Reading an invocation\<close>

text \<open>The mutating calls (install or remove) an invocation made.\<close>

definition mutating_calls :: "'w run \<Rightarrow> call list" where
  "mutating_calls r = filter is_mutating (trace r)"

text \<open>
  The snapshot the first statement of either function reads in machine state \<open>w\<close>
  (\<^verbatim>\<open>old\<close> in the source), and the machine state that read leaves.
\<close>

abbreviation before :: "'w loader_context \<Rightarrow> 'w \<Rightarrow> feature_status" where
  "before ctx w \<equiv> fst (salt_list_installed ctx w)"

abbreviation after_read :: "'w loader_context \<Rightarrow> 'w \<Rightarrow> 'w" where
  "after_read ctx w \<equiv> snd (salt_list_installed ctx w)"

subsection \<open>A concrete machine\<close>

text \<open>
  A machine whose state is the dictionary of installed features. Reading returns
  it unchanged. Every install and remove call returns the operation result \<open>st\<close>;
  when \<open>st\<close> reports success, install adds the feature and remove deletes it.
  \<open>example_diff\<close> lists the keys present on one side only.
\<close>

definition example_diff :: "feature_status \<Rightarrow> feature_status \<Rightarrow> changes" where
  "example_diff old new =
     map (\<lambda>kv. (fst kv, OldNew [] (snd kv))) (filter (\<lambda>kv. \<not> dict_has old (fst kv)) new) @
     map (\<lambda>kv. (fst kv, OldNew (snd kv) [])) (filter (\<lambda>kv. \<not> dict_has new (fst kv)) old)"

definition example_ctx :: "bool \<Rightarrow> op_result \<Rightarrow> feature_status loader_context" where
  "example_ctx t st =
     \<lparr>salt_list_installed = (\<lambda>w. (w, w)),
      salt_install = (\<lambda>n r w.
        (st, if Success st \<and> \<not> dict_has w n then w @ [(n, DisplayName st)] else w)),
      salt_remove = (\<lambda>n w.
        (st, if Success st then filter (\<lambda>kv. fst kv \<noteq> n) w else w)),
      salt_utils_compare_dicts = example_diff,
      opts_test = t\<rparr>"

section \<open>Properties\<close>

subsection \<open>The paths through the two functions\<close>

lemma load_global_salt: "load_global ''salt'' = Inl (NameError ''salt'')"
  by (simp add: load_global_def module_globals_def)

lemma installed_apply_test:
  "opts_test ctx \<Longrightarrow>
   installed_apply ctx nm recurse old w1 ret =
     \<lparr>outcome = Inr (ret\<lparr>result := None\<rparr>), trace = [ListInstalled], world = w1\<rparr>"
  by (simp add: installed_apply_def)

lemma installed_apply_failure:
  "\<not> opts_test ctx \<Longrightarrow> \<not> Success (fst (salt_install ctx nm recurse w1)) \<Longrightarrow>
   changes ret = [] \<Longrightarrow>
   installed_apply ctx nm recurse old w1 ret =
     \<lparr>outcome = Inl (KeyError ''feature''), trace = [ListInstalled, Install nm recurse],
      world = snd (salt_install ctx nm recurse w1)\<rparr>"
  by (simp add: installed_apply_def dict_get_def split_def)

lemma installed_apply_success:
  "\<not> opts_test ctx \<Longrightarrow> Success (fst (salt_install ctx nm recurse w1)) \<Longrightarrow>
   installed_apply ctx nm recurse old w1 ret =
     \<lparr>outcome = Inl (NameError ''salt''),
      trace = [ListInstalled, Install nm recurse, ListInstalled],
      world = snd (salt_list_installed ctx (snd (salt_install ctx nm recurse w1)))\<rparr>"
  by (simp add: installed_apply_def split_def load_global_salt)

lemma installed_present:
  "dict_has (before ctx w) nm \<Longrightarrow> \<not> (force \<and> recurse) \<Longrightarrow>
   installed ctx nm recurse force w =
     \<lparr>outcome = Inr \<lparr>name = nm, result = Some True, changes = [],
                      comment = ''The feature '' @ nm @ '' is already installed''\<rparr>,
      trace = [ListInstalled], world = after_read ctx w\<rparr>"
  by (auto simp add: installed_def split_def Let_def)

lemma installed_proceeds:
  "\<not> dict_has (before ctx w) nm \<or> (force \<and> recurse) \<Longrightarrow>
   installed ctx nm recurse force w =
     installed_apply ctx nm recurse (before ctx w) (after_read ctx w)
       \<lparr>name = nm, result = Some True, changes = [],
        comment = (if \<not> dict_has (before ctx w) nm
                   then nm @ '' will be installed recurse='' @ str_bool recurse
                   else nm @ '' already installed but might install sub-features'')\<rparr>"
  by (auto simp add: installed_def split_def Let_def)

lemma removed_absent:
  "\<not> dict_has (before ctx w) nm \<Longrightarrow>
   removed ctx nm w =
     \<lparr>outcome = Inr \<lparr>name = nm, result = Some True, changes = [],
                      comment = ''The feature '' @ nm @ '' is not installed''\<rparr>,
      trace = [ListInstalled], world = after_read ctx w\<rparr>"
  by (simp add: removed_def split_def Let_def)

lemma removed_test:
  "dict_has (before ctx w) nm \<Longrightarrow> opts_test ctx \<Longrightarrow>
   removed ctx nm w =
     \<lparr>outcome = Inr \<lparr>name = nm, result = None, changes = [],
                      comment = nm @ '' will be removed''\<rparr>,
      trace = [ListInstalled], world = after_read ctx w\<rparr>"
  by (simp add: removed_def split_def Let_def)

lemma removed_failure:
  "dict_has (before ctx w) nm \<Longrightarrow> \<not> opts_test ctx \<Longrightarrow>
   \<not> Success (fst (salt_remove ctx nm (after_read ctx w))) \<Longrightarrow>
   removed ctx nm w =
     \<lparr>outcome = Inl (KeyError ''feature''), trace = [ListInstalled, Remove nm],
      world = snd (salt_remove ctx nm (after_read ctx w))\<rparr>"
  by (simp add: removed_def split_def dict_get_def Let_def)

lemma removed_success:
  "dict_has (before ctx w) nm \<Longrightarrow> \<not> opts_test ctx \<Longrightarrow>
   Success (fst (salt_remove ctx nm (after_read ctx w))) \<Longrightarrow>
   removed ctx nm w =
     \<lparr>outcome = Inl (NameError ''salt''), trace = [ListInstalled, Remove nm, ListInstalled],
      world = snd (salt_list_installed ctx (snd (salt_remove ctx nm (after_read ctx w))))\<rparr>"
  by (simp add: removed_def split_def load_global_salt Let_def)

text \<open>Evaluating the concrete machine.\<close>

lemma example_ctx_simps:
  "salt_list_installed (example_ctx t st) w = (w, w)"
  "salt_install (example_ctx t st) n r w =
     (st, if Success st \<and> \<not> dict_has w n then w @ [(n, DisplayName st)] else w)"
  "salt_remove (example_ctx t st) n w =
     (st, if Success st then filter (\<lambda>kv. fst kv \<noteq> n) w else w)"
  "opts_test (example_ctx t st) = t"
  by (simp_all add: example_ctx_def)

subsection \<open>Already satisfied\<close>

text \<open>
  Claim C5. For every name present in the before snapshot, unless force and recurse
  are both set, \<open>installed\<close> returns the report with result true, empty changes and
  the comment that the feature is already installed, after the single read of the
  snapshot: it makes no install or remove call. The dry-run flag plays no part.
\<close>

theorem installed_already_installed:
  assumes "dict_has (before ctx w) nm" and "\<not> (force \<and> recurse)"
  shows "outcome (installed ctx nm recurse force w) =
           Inr \<lparr>name = nm, result = Some True, changes = [],
                comment = ''The feature '' @ nm @ '' is already installed''\<rparr>
         \<and> trace (installed ctx nm recurse force w) = [ListInstalled]
         \<and> mutating_calls (installed ctx nm recurse force w) = []"
  using assms by (simp add: installed_present mutating_calls_def)

theorem installed_already_installed_witness:
  "dict_has (before (example_ctx False \<lparr>Success = True, DisplayName = ''Web Server (IIS)'', ExitCode = 0\<rparr>)
               [(''Web-Server'', ''Web Server (IIS)'')]) ''Web-Server''
   \<and> \<not> (True \<and> False)
   \<and> outcome (installed (example_ctx False \<lparr>Success = True, DisplayName = ''Web Server (IIS)'', ExitCode = 0\<rparr>)
                 ''Web-Server'' False True [(''Web-Server'', ''Web Server (IIS)'')]) =
        Inr \<lparr>name = ''Web-Server'', result = Some True, changes = [],
             comment = ''The feature Web-Server is already installed''\<rparr>
   \<and> mutating_calls (installed (example_ctx False \<lparr>Success = True, DisplayName = ''Web Server (IIS)'', ExitCode = 0\<rparr>)
                 ''Web-Server'' False True [(''Web-Server'', ''Web Server (IIS)'')]) = []"
proof -
  let ?ctx = "example_ctx False \<lparr>Success = True, DisplayName = ''Web Server (IIS)'', ExitCode = 0\<rparr>"
  have present: "dict_has (before ?ctx [(''Web-Server'', ''Web Server (IIS)'')]) ''Web-Server''"
    by (simp add: example_ctx_simps dict_has_def)
  have gate: "\<not> (True \<and> False)"
    by simp
  from installed_already_installed [OF present gate] present show ?thesis
    by simp
qed

text \<open>
  Claim C6. For every name not present in the installed-features snapshot,
  \<open>removed\<close> returns a report with result true (empty changes, the comment that the
  feature is not installed) and makes no call to the remove function.
\<close>

theorem removed_not_installed:
  assumes "\<not> dict_has (before ctx w) nm"
  shows "outcome (removed ctx nm w) =
           Inr \<lparr>name = nm, result = Some True, changes = [],
                comment = ''The feature '' @ nm @ '' is not installed''\<rparr>
         \<and> trace (removed ctx nm w) = [ListInstalled]
         \<and> mutating_calls (removed ctx nm w) = []"
  using assms by (simp add: removed_absent mutating_calls_def)

theorem removed_not_installed_witness:
  "\<not> dict_has (before (example_ctx False \<lparr>Success = True, DisplayName = ''Telnet Client'', ExitCode = 0\<rparr>)
                 [(''Web-Server'', ''Web Server (IIS)'')]) ''Telnet-Client''
   \<and> outcome (removed (example_ctx False \<lparr>Success = True, DisplayName = ''Telnet Client'', ExitCode = 0\<rparr>)
                 ''Telnet-Client'' [(''Web-Server'', ''Web Server (IIS)'')]) =
        Inr \<lparr>name = ''Telnet-Client'', result = Some True, changes = [],
             comment = ''The feature Telnet-Client is not installed''\<rparr>
   \<and> mutating_calls (removed (example_ctx False \<lparr>Success = True, DisplayName = ''Telnet Client'', ExitCode = 0\<rparr>)
                 ''Telnet-Client'' [(''Web-Server'', ''Web Server (IIS)'')]) = []"
proof -
  let ?ctx = "example_ctx False \<lparr>Success = True, DisplayName = ''Telnet Client'', ExitCode = 0\<rparr>"
  have absent: "\<not> dict_has (before ?ctx [(''Web-Server'', ''Web Server (IIS)'')]) ''Telnet-Client''"
    by (simp add: example_ctx_simps dict_has_def)
  from removed_not_installed [OF absent] absent show ?thesis
    by simp
qed

subsection \<open>Dry run\<close>

text \<open>
  Claim C7. When the dry-run flag is set and divergence is detected (for
  \<open>installed\<close>: the name is absent from the before snapshot, or force and recurse
  are both set; for \<open>removed\<close>: the name is present), the function returns at once
  with result \<open>None\<close>: the only call made is the read of the snapshot, so no install
  or remove call, and changes is still the empty dictionary of the initial report.
\<close>

theorem dry_run_returns_unknown:
  assumes "opts_test ctx"
  shows "(\<not> dict_has (before ctx w) nm \<or> (force \<and> recurse) \<longrightarrow>
            outcome (installed ctx nm recurse force w) =
              Inr \<lparr>name = nm, result = None, changes = [],
                   comment =
                     (if \<not> dict_has (before ctx w) nm
                      then nm @ '' will be installed recurse='' @ str_bool recurse
                      else nm @ '' already installed but might install sub-features'')\<rparr>
            \<and> trace (installed ctx nm recurse force w) = [ListInstalled]
            \<and> mutating_calls (installed ctx nm recurse force w) = []
            \<and> world (installed ctx nm recurse force w) = after_read ctx w)
       \<and> (dict_has (before ctx w) nm \<longrightarrow>
            outcome (removed ctx nm w) =
              Inr \<lparr>name = nm, result = None, changes = [], comment = nm @ '' will be removed''\<rparr>
            \<and> trace (removed ctx nm w) = [ListInstalled]
            \<and> mutating_calls (removed ctx nm w) = []
            \<and> world (removed ctx nm w) = after_read ctx w)"
proof (intro conjI impI)
  assume div: "\<not> dict_has (before ctx w) nm \<or> (force \<and> recurse)"
  note run = installed_proceeds [OF div] installed_apply_test [OF assms]
  show "outcome (installed ctx nm recurse force w) =
          Inr \<lparr>name = nm, result = None, changes = [],
               comment =
                 (if \<not> dict_has (before ctx w) nm
                  then nm @ '' will be installed recurse='' @ str_bool recurse
                  else nm @ '' already installed but might install sub-features'')\<rparr>"
    by (simp add: run)
  show "trace (installed ctx nm recurse force w) = [ListInstalled]"
    by (simp add: run)
  show "mutating_calls (installed ctx nm recurse force w) = []"
    by (simp add: run mutating_calls_def)
  show "world (installed ctx nm recurse force w) = after_read ctx w"
    by (simp add: run)
next
  assume present: "dict_has (before ctx w) nm"
  note run = removed_test [OF present assms]
  show "outcome (removed ctx nm w) =
          Inr \<lparr>name = nm, result = None, changes = [], comment = nm @ '' will be removed''\<rparr>"
    by (simp add: run)
  show "trace (removed ctx nm w) = [ListInstalled]"
    by (simp add: run)
  show "mutating_calls (removed ctx nm w) = []"
    by (simp add: run mutating_calls_def)
  show "world (removed ctx nm w) = after_read ctx w"
    by (simp add: run)
qed

theorem dry_run_returns_unknown_witness:
  "opts_test (example_ctx True \<lparr>Success = True, DisplayName = ''Web Server (IIS)'', ExitCode = 0\<rparr>)
   \<and> \<not> dict_has (before (example_ctx True \<lparr>Success = True, DisplayName = ''Web Server (IIS)'', ExitCode = 0\<rparr>) [])
         ''Web-Server''
   \<and> outcome (installed (example_ctx True \<lparr>Success = True, DisplayName = ''Web Server (IIS)'', ExitCode = 0\<rparr>)
                 ''Web-Server'' False False []) =
        Inr \<lparr>name = ''Web-Server'', result = None, changes = [],
             comment = ''Web-Server will be installed recurse=False''\<rparr>
   \<and> mutating_calls (installed (example_ctx True \<lparr>Success = True, DisplayName = ''Web Server (IIS)'', ExitCode = 0\<rparr>)
                      ''Web-Server'' False False []) = []
   \<and> dict_has (before (example_ctx True \<lparr>Success = True, DisplayName = ''Web Server (IIS)'', ExitCode = 0\<rparr>)
         [(''Web-Server'', ''Web Server (IIS)'')]) ''Web-Server''
   \<and> outcome (removed (example_ctx True \<lparr>Success = True, DisplayName = ''Web Server (IIS)'', ExitCode = 0\<rparr>)
                 ''Web-Server'' [(''Web-Server'', ''Web Server (IIS)'')]) =
        Inr \<lparr>name = ''Web-Server'', result = None, changes = [],
             comment = ''Web-Server will be removed''\<rparr>
   \<and> mutating_calls (removed (example_ctx True \<lparr>Success = True, DisplayName = ''Web Server (IIS)'', ExitCode = 0\<rparr>)
                 ''Web-Server'' [(''Web-Server'', ''Web Server (IIS)'')]) = []"
proof -
  let ?ctx = "example_ctx True \<lparr>Success = True, DisplayName = ''Web Server (IIS)'', ExitCode = 0\<rparr>"
  have dry: "opts_test ?ctx"
    by (simp add: example_ctx_simps)
  have absent: "\<not> dict_has (before ?ctx []) ''Web-Server''"
    by (simp add: example_ctx_simps dict_has_def)
  have present: "dict_has (before ?ctx [(''Web-Server'', ''Web Server (IIS)'')]) ''Web-Server''"
    by (simp add: example_ctx_simps dict_has_def)
  from dry_run_returns_unknown [OF dry, of "[]" "''Web-Server''" False False]
       dry_run_returns_unknown [OF dry, of "[(''Web-Server'', ''Web Server (IIS)'')]" "''Web-Server''" False False]
       dry absent present
  show ?thesis
    by (simp add: str_bool_def)
qed

subsection \<open>How often and when a mutating call is made\<close>

text \<open>The calls each function makes, path by path.\<close>

lemma installed_trace:
  "trace (installed ctx nm recurse force w) =
     (if dict_has (before ctx w) nm \<and> \<not> (force \<and> recurse) then [ListInstalled]
      else if opts_test ctx then [ListInstalled]
      else if Success (fst (salt_install ctx nm recurse (after_read ctx w)))
      then [ListInstalled, Install nm recurse, ListInstalled]
      else [ListInstalled, Install nm recurse])"
proof (cases "dict_has (before ctx w) nm \<and> \<not> (force \<and> recurse)")
  case True
  then show ?thesis
    by (simp add: installed_present)
next
  case False
  then have div: "\<not> dict_has (before ctx w) nm \<or> (force \<and> recurse)"
    by blast
  show ?thesis
  proof (cases "opts_test ctx")
    case True
    with False show ?thesis
      by (simp add: installed_proceeds [OF div] installed_apply_test)
  next
    case dry_off: False
    show ?thesis
    proof (cases "Success (fst (salt_install ctx nm recurse (after_read ctx w)))")
      case True
      with False dry_off show ?thesis
        by (simp add: installed_proceeds [OF div] installed_apply_success)
    next
      case failed: False
      with False dry_off show ?thesis
        by (simp add: installed_proceeds [OF div] installed_apply_failure)
    qed
  qed
qed

lemma removed_trace:
  "trace (removed ctx nm w) =
     (if \<not> dict_has (before ctx w) nm then [ListInstalled]
      else if opts_test ctx then [ListInstalled]
      else if Success (fst (salt_remove ctx nm (after_read ctx w)))
      then [ListInstalled, Remove nm, ListInstalled]
      else [ListInstalled, Remove nm])"
  by (simp add: removed_absent removed_test removed_failure removed_success)

text \<open>
  Claim C8. In every invocation of \<open>installed\<close> or \<open>removed\<close> at most one mutating
  call (install or remove) is made; \<open>installed\<close> makes one only when the name is
  absent from the before snapshot, or force and recurse are both set while the
  feature is installed; \<open>removed\<close> makes one only when the name is present in the
  before snapshot.
\<close>

theorem mutation_at_most_once:
  "length (mutating_calls (installed ctx nm recurse force w)) \<le> 1
   \<and> (mutating_calls (installed ctx nm recurse force w) \<noteq> [] \<longrightarrow>
        \<not> dict_has (before ctx w) nm \<or> (force \<and> recurse \<and> dict_has (before ctx w) nm))
   \<and> length (mutating_calls (removed ctx nm w)) \<le> 1
   \<and> (mutating_calls (removed ctx nm w) \<noteq> [] \<longrightarrow> dict_has (before ctx w) nm)"
  by (simp add: mutating_calls_def installed_trace removed_trace)

theorem mutation_at_most_once_witness:
  "mutating_calls (installed (example_ctx False \<lparr>Success = True, DisplayName = ''Web Server (IIS)'', ExitCode = 0\<rparr>)
                     ''Web-Server'' True True [(''Web-Server'', ''Web Server (IIS)'')])
     = [Install ''Web-Server'' True]
   \<and> length (mutating_calls (installed (example_ctx False \<lparr>Success = True, DisplayName = ''Web Server (IIS)'', ExitCode = 0\<rparr>)
                     ''Web-Server'' True True [(''Web-Server'', ''Web Server (IIS)'')])) \<le> 1
   \<and> dict_has (before (example_ctx False \<lparr>Success = True, DisplayName = ''Web Server (IIS)'', ExitCode = 0\<rparr>)
                 [(''Web-Server'', ''Web Server (IIS)'')]) ''Web-Server''
   \<and> mutating_calls (removed (example_ctx False \<lparr>Success = True, DisplayName = ''Web Server (IIS)'', ExitCode = 0\<rparr>)
                     ''Web-Server'' [(''Web-Server'', ''Web Server (IIS)'')])
     = [Remove ''Web-Server'']
   \<and> length (mutating_calls (removed (example_ctx False \<lparr>Success = True, DisplayName = ''Web Server (IIS)'', ExitCode = 0\<rparr>)
                     ''Web-Server'' [(''Web-Server'', ''Web Server (IIS)'')])) \<le> 1"
proof -
  let ?ctx = "example_ctx False \<lparr>Success = True, DisplayName = ''Web Server (IIS)'', ExitCode = 0\<rparr>"
  let ?w = "[(''Web-Server'', ''Web Server (IIS)'')]"
  have inst: "mutating_calls (installed ?ctx ''Web-Server'' True True ?w) = [Install ''Web-Server'' True]"
    by (simp add: mutating_calls_def installed_trace example_ctx_simps dict_has_def)
  have rem: "mutating_calls (removed ?ctx ''Web-Server'' ?w) = [Remove ''Web-Server'']"
    by (simp add: mutating_calls_def removed_trace example_ctx_simps dict_has_def)
  have rem_ne: "mutating_calls (removed ?ctx ''Web-Server'' ?w) \<noteq> []"
    by (simp add: rem)
  note bound = mutation_at_most_once [of ?ctx "''Web-Server''" True True ?w]
  from bound have once: "length (mutating_calls (installed ?ctx ''Web-Server'' True True ?w)) \<le> 1"
    by blast
  from bound have once_rem: "length (mutating_calls (removed ?ctx ''Web-Server'' ?w)) \<le> 1"
    by blast
  from bound rem_ne have present: "dict_has (before ?ctx ?w) ''Web-Server''"
    by blast
  from inst rem once once_rem present show ?thesis
    by blast
qed

subsection \<open>Calling installed twice\<close>

text \<open>
  Claim C10. Take any name and any collaborator such that, in the machine state a
  first call \<open>installed(name, recurse=False, force=False)\<close> leaves behind, the status
  reader includes the name in its snapshot. Then a second identical call takes the
  already-satisfied return: result true, empty changes, the comment that the feature
  is already installed, and no mutating call. Nothing is assumed about how the
  first call ended.
\<close>

theorem installed_twice_already_satisfied:
  assumes "dict_has (before ctx (world (installed ctx nm False False w))) nm"
  shows "outcome (installed ctx nm False False (world (installed ctx nm False False w))) =
           Inr \<lparr>name = nm, result = Some True, changes = [],
                comment = ''The feature '' @ nm @ '' is already installed''\<rparr>
         \<and> mutating_calls (installed ctx nm False False (world (installed ctx nm False False w))) = []"
  using assms by (simp add: installed_present mutating_calls_def)

theorem installed_twice_already_satisfied_witness:
  "outcome (installed (example_ctx False \<lparr>Success = True, DisplayName = ''Web Server (IIS)'', ExitCode = 0\<rparr>)
              ''Web-Server'' False False [(''Web-Server'', ''Web Server (IIS)'')]) =
     Inr \<lparr>name = ''Web-Server'', result = Some True, changes = [],
          comment = ''The feature Web-Server is already installed''\<rparr>
   \<and> dict_has (before (example_ctx False \<lparr>Success = True, DisplayName = ''Web Server (IIS)'', ExitCode = 0\<rparr>)
       (world (installed (example_ctx False \<lparr>Success = True, DisplayName = ''Web Server (IIS)'', ExitCode = 0\<rparr>)
                 ''Web-Server'' False False [(''Web-Server'', ''Web Server (IIS)'')]))) ''Web-Server''
   \<and> outcome (installed (example_ctx False \<lparr>Success = True, DisplayName = ''Web Server (IIS)'', ExitCode = 0\<rparr>)
       ''Web-Server'' False False
       (world (installed (example_ctx False \<lparr>Success = True, DisplayName = ''Web Server (IIS)'', ExitCode = 0\<rparr>)
                 ''Web-Server'' False False [(''Web-Server'', ''Web Server (IIS)'')]))) =
     Inr \<lparr>name = ''Web-Server'', result = Some True, changes = [],
          comment = ''The feature Web-Server is already installed''\<rparr>
   \<and> mutating_calls (installed (example_ctx False \<lparr>Success = True, DisplayName = ''Web Server (IIS)'', ExitCode = 0\<rparr>)
       ''Web-Server'' False False
       (world (installed (example_ctx False \<lparr>Success = True, DisplayName = ''Web Server (IIS)'', ExitCode = 0\<rparr>)
                 ''Web-Server'' False False [(''Web-Server'', ''Web Server (IIS)'')]))) = []
   \<and> world (installed (example_ctx False \<lparr>Success = True, DisplayName = ''Web Server (IIS)'', ExitCode = 0\<rparr>)
              ''Web-Server'' False False []) = [(''Web-Server'', ''Web Server (IIS)'')]
   \<and> dict_has (before (example_ctx False \<lparr>Success = True, DisplayName = ''Web Server (IIS)'', ExitCode = 0\<rparr>)
       (world (installed (example_ctx False \<lparr>Success = True, DisplayName = ''Web Server (IIS)'', ExitCode = 0\<rparr>)
                 ''Web-Server'' False False []))) ''Web-Server''
   \<and> outcome (installed (example_ctx False \<lparr>Success = True, DisplayName = ''Web Server (IIS)'', ExitCode = 0\<rparr>)
       ''Web-Server'' False False
       (world (installed (example_ctx False \<lparr>Success = True, DisplayName = ''Web Server (IIS)'', ExitCode = 0\<rparr>)
                 ''Web-Server'' False False []))) =
     Inr \<lparr>name = ''Web-Server'', result = Some True, changes = [],
          comment = ''The feature Web-Server is already installed''\<rparr>
   \<and> mutating_calls (installed (example_ctx False \<lparr>Success = True, DisplayName = ''Web Server (IIS)'', ExitCode = 0\<rparr>)
       ''Web-Server'' False False
       (world (installed (example_ctx False \<lparr>Success = True, DisplayName = ''Web Server (IIS)'', ExitCode = 0\<rparr>)
                 ''Web-Server'' False False []))) = []"
proof -
  let ?ctx = "example_ctx False \<lparr>Success = True, DisplayName = ''Web Server (IIS)'', ExitCode = 0\<rparr>"
  let ?w = "[(''Web-Server'', ''Web Server (IIS)'')]"
  have first_kept: "installed ?ctx ''Web-Server'' False False ?w =
      \<lparr>outcome = Inr \<lparr>name = ''Web-Server'', result = Some True, changes = [],
                       comment = ''The feature Web-Server is already installed''\<rparr>,
       trace = [ListInstalled], world = ?w\<rparr>"
    by (simp add: installed_present example_ctx_simps dict_has_def)
  have first_new: "world (installed ?ctx ''Web-Server'' False False []) = ?w"
    by (simp add: installed_proceeds installed_apply_success example_ctx_simps dict_has_def)
  have kept: "dict_has (before ?ctx (world (installed ?ctx ''Web-Server'' False False ?w))) ''Web-Server''"
    by (simp add: first_kept example_ctx_simps dict_has_def)
  have new: "dict_has (before ?ctx (world (installed ?ctx ''Web-Server'' False False []))) ''Web-Server''"
    by (simp add: first_new example_ctx_simps dict_has_def)
  have first_out: "outcome (installed ?ctx ''Web-Server'' False False ?w) =
      Inr \<lparr>name = ''Web-Server'', result = Some True, changes = [],
           comment = ''The feature Web-Server is already installed''\<rparr>"
    by (simp add: first_kept)
  from installed_twice_already_satisfied [OF kept] installed_twice_already_satisfied [OF new]
       first_out first_new kept new
  show ?thesis
    by simp
qed

subsection \<open>Invocations that mutate\<close>

text \<open>
  Claim C4, as amended. Every invocation of \<open>installed\<close> or \<open>removed\<close> that performs
  a mutation (dry-run off, divergence detected) ends in an exception instead of a
  report. When the operation result has \<open>Success\<close> true, the invocation reaches the
  diff step after the second read of the snapshot and fails there with
  \<open>NameError\<close> for \<open>salt\<close>, a name the module never binds. When \<open>Success\<close> is
  false, it fails before the second read, with \<open>KeyError\<close> for \<open>feature\<close> at the
  failure comment, and does not reach the diff step.
\<close>

theorem mutation_never_returns_report:
  assumes "\<not> opts_test ctx"
  shows "(\<not> dict_has (before ctx w) nm \<or> (force \<and> recurse) \<longrightarrow>
            (\<exists>e. outcome (installed ctx nm recurse force w) = Inl e)
            \<and> (Success (fst (salt_install ctx nm recurse (after_read ctx w))) \<longrightarrow>
                 outcome (installed ctx nm recurse force w) = Inl (NameError ''salt'')
                 \<and> trace (installed ctx nm recurse force w) =
                     [ListInstalled, Install nm recurse, ListInstalled])
            \<and> (\<not> Success (fst (salt_install ctx nm recurse (after_read ctx w))) \<longrightarrow>
                 outcome (installed ctx nm recurse force w) = Inl (KeyError ''feature'')
                 \<and> trace (installed ctx nm recurse force w) =
                     [ListInstalled, Install nm recurse]))
       \<and> (dict_has (before ctx w) nm \<longrightarrow>
            (\<exists>e. outcome (removed ctx nm w) = Inl e)
            \<and> (Success (fst (salt_remove ctx nm (after_read ctx w))) \<longrightarrow>
                 outcome (removed ctx nm w) = Inl (NameError ''salt'')
                 \<and> trace (removed ctx nm w) = [ListInstalled, Remove nm, ListInstalled])
            \<and> (\<not> Success (fst (salt_remove ctx nm (after_read ctx w))) \<longrightarrow>
                 outcome (removed ctx nm w) = Inl (KeyError ''feature'')
                 \<and> trace (removed ctx nm w) = [ListInstalled, Remove nm]))"
proof (intro conjI impI)
  assume div: "\<not> dict_has (before ctx w) nm \<or> (force \<and> recurse)"
  note start = installed_proceeds [OF div]
  show "\<exists>e. outcome (installed ctx nm recurse force w) = Inl e"
  proof (cases "Success (fst (salt_install ctx nm recurse (after_read ctx w)))")
    case True
    with assms show ?thesis
      by (simp add: start installed_apply_success)
  next
    case False
    with assms show ?thesis
      by (simp add: start installed_apply_failure)
  qed
  {
    assume ok: "Success (fst (salt_install ctx nm recurse (after_read ctx w)))"
    from assms ok show "outcome (installed ctx nm recurse force w) = Inl (NameError ''salt'')"
      by (simp add: start installed_apply_success)
    from assms ok show "trace (installed ctx nm recurse force w) =
        [ListInstalled, Install nm recurse, ListInstalled]"
      by (simp add: start installed_apply_success)
  }
  {
    assume failed: "\<not> Success (fst (salt_install ctx nm recurse (after_read ctx w)))"
    from assms failed show "outcome (installed ctx nm recurse force w) = Inl (KeyError ''feature'')"
      by (simp add: start installed_apply_failure)
    from assms failed show "trace (installed ctx nm recurse force w) =
        [ListInstalled, Install nm recurse]"
      by (simp add: start installed_apply_failure)
  }
next
  assume present: "dict_has (before ctx w) nm"
  show "\<exists>e. outcome (removed ctx nm w) = Inl e"
  proof (cases "Success (fst (salt_remove ctx nm (after_read ctx w)))")
    case True
    with assms present show ?thesis
      by (simp add: removed_success)
  next
    case False
    with assms present show ?thesis
      by (simp add: removed_failure)
  qed
  {
    assume ok: "Success (fst (salt_remove ctx nm (after_read ctx w)))"
    from assms present ok show "outcome (removed ctx nm w) = Inl (NameError ''salt'')"
      by (simp add: removed_success)
    from assms present ok show "trace (removed ctx nm w) = [ListInstalled, Remove nm, ListInstalled]"
      by (simp add: removed_success)
  }
  {
    assume failed: "\<not> Success (fst (salt_remove ctx nm (after_read ctx w)))"
    from assms present failed show "outcome (removed ctx nm w) = Inl (KeyError ''feature'')"
      by (simp add: removed_failure)
    from assms present failed show "trace (removed ctx nm w) = [ListInstalled, Remove nm]"
      by (simp add: removed_failure)
  }
qed

theorem mutation_never_returns_report_witness:
  "\<not> opts_test (example_ctx False \<lparr>Success = True, DisplayName = ''Web Server (IIS)'', ExitCode = 0\<rparr>)
   \<and> dict_has (before (example_ctx False \<lparr>Success = True, DisplayName = ''Web Server (IIS)'', ExitCode = 0\<rparr>)
                 [(''Web-Server'', ''Web Server (IIS)'')]) ''Web-Server''
   \<and> outcome (installed (example_ctx False \<lparr>Success = True, DisplayName = ''Web Server (IIS)'', ExitCode = 0\<rparr>)
                 ''Web-Server'' True True [(''Web-Server'', ''Web Server (IIS)'')]) = Inl (NameError ''salt'')
   \<and> outcome (removed (example_ctx False \<lparr>Success = True, DisplayName = ''Web Server (IIS)'', ExitCode = 0\<rparr>)
                 ''Web-Server'' [(''Web-Server'', ''Web Server (IIS)'')]) = Inl (NameError ''salt'')
   \<and> \<not> opts_test (example_ctx False \<lparr>Success = False, DisplayName = ''Web Server (IIS)'', ExitCode = 1603\<rparr>)
   \<and> dict_has (before (example_ctx False \<lparr>Success = False, DisplayName = ''Web Server (IIS)'', ExitCode = 1603\<rparr>)
                 [(''Web-Server'', ''Web Server (IIS)'')]) ''Web-Server''
   \<and> outcome (installed (example_ctx False \<lparr>Success = False, DisplayName = ''Web Server (IIS)'', ExitCode = 1603\<rparr>)
                 ''Web-Server'' True True [(''Web-Server'', ''Web Server (IIS)'')]) = Inl (KeyError ''feature'')
   \<and> outcome (removed (example_ctx False \<lparr>Success = False, DisplayName = ''Web Server (IIS)'', ExitCode = 1603\<rparr>)
                 ''Web-Server'' [(''Web-Server'', ''Web Server (IIS)'')]) = Inl (KeyError ''feature'')"
proof -
  let ?ok = "example_ctx False \<lparr>Success = True, DisplayName = ''Web Server (IIS)'', ExitCode = 0\<rparr>"
  let ?bad = "example_ctx False \<lparr>Success = False, DisplayName = ''Web Server (IIS)'', ExitCode = 1603\<rparr>"
  let ?w = "[(''Web-Server'', ''Web Server (IIS)'')]"
  have wet_ok: "\<not> opts_test ?ok" and wet_bad: "\<not> opts_test ?bad"
    by (simp_all add: example_ctx_simps)
  have present_ok: "dict_has (before ?ok ?w) ''Web-Server''"
    and present_bad: "dict_has (before ?bad ?w) ''Web-Server''"
    by (simp_all add: example_ctx_simps dict_has_def)
  have success: "Success (fst (salt_install ?ok ''Web-Server'' True (after_read ?ok ?w)))"
    "Success (fst (salt_remove ?ok ''Web-Server'' (after_read ?ok ?w)))"
    by (simp_all add: example_ctx_simps)
  have failure: "\<not> Success (fst (salt_install ?bad ''Web-Server'' True (after_read ?bad ?w)))"
    "\<not> Success (fst (salt_remove ?bad ''Web-Server'' (after_read ?bad ?w)))"
    by (simp_all add: example_ctx_simps)
  from mutation_never_returns_report [OF wet_ok, of ?w "''Web-Server''" True True]
       mutation_never_returns_report [OF wet_bad, of ?w "''Web-Server''" True True]
       wet_ok wet_bad present_ok present_bad success failure
  show ?thesis
    by blast
qed

text \<open>
  Claim C4 as stated fails where the operation result has \<open>Success\<close> false: the
  invocation below performs a mutation, yet it stops after the install call, before
  the second read that precedes the diff step, and the exception is a \<open>KeyError\<close>,
  not a name-resolution error.
\<close>

theorem failed_mutation_stops_before_diff:
  "\<not> opts_test (example_ctx False \<lparr>Success = False, DisplayName = ''Web Server (IIS)'', ExitCode = 1603\<rparr>)
   \<and> \<not> dict_has (before (example_ctx False \<lparr>Success = False, DisplayName = ''Web Server (IIS)'', ExitCode = 1603\<rparr>) [])
         ''Web-Server''
   \<and> mutating_calls (installed (example_ctx False \<lparr>Success = False, DisplayName = ''Web Server (IIS)'', ExitCode = 1603\<rparr>)
                       ''Web-Server'' True False []) = [Install ''Web-Server'' True]
   \<and> trace (installed (example_ctx False \<lparr>Success = False, DisplayName = ''Web Server (IIS)'', ExitCode = 1603\<rparr>)
              ''Web-Server'' True False []) = [ListInstalled, Install ''Web-Server'' True]
   \<and> outcome (installed (example_ctx False \<lparr>Success = False, DisplayName = ''Web Server (IIS)'', ExitCode = 1603\<rparr>)
                ''Web-Server'' True False []) = Inl (KeyError ''feature'')
   \<and> outcome (installed (example_ctx False \<lparr>Success = False, DisplayName = ''Web Server (IIS)'', ExitCode = 1603\<rparr>)
                ''Web-Server'' True False []) \<noteq> Inl (NameError ''salt'')"
  by (simp add: installed_def installed_apply_def mutating_calls_def example_ctx_def
      dict_has_def dict_get_def)

subsection \<open>Where the code departs from its intended reports\<close>

text \<open>
  Claim C1 says: for every name absent from the before snapshot, with dry-run off
  and an operation result with \<open>Success\<close> true, \<open>installed\<close> makes exactly one install
  call and returns a report with result true and changes equal to the diff of the
  snapshots read before and after. The code makes the one install call and reads
  both snapshots, but line 75 then reads the global name \<open>salt\<close>, which the module
  never binds: the invocation ends in \<open>NameError\<close> and no report is returned. Here
  the feature Web-Server is installed on a machine with no features.
\<close>

theorem installed_success_ends_in_name_error:
  "installed (example_ctx False \<lparr>Success = True, DisplayName = ''Web Server (IIS)'', ExitCode = 0\<rparr>)
     ''Web-Server'' False False [] =
   \<lparr>outcome = Inl (NameError ''salt''),
    trace = [ListInstalled, Install ''Web-Server'' False, ListInstalled],
    world = [(''Web-Server'', ''Web Server (IIS)'')]\<rparr>"
  by (simp add: installed_def installed_apply_def example_ctx_def dict_has_def
      load_global_def module_globals_def)

text \<open>
  Claim C2 says: for every name absent from the before snapshot, with dry-run off
  and an operation result with \<open>Success\<close> false, \<open>installed\<close> makes exactly one
  mutating call and returns a report with result false whose comment contains the
  exit code. The code makes the one install call, but line 70 builds the comment
  from \<^verbatim>\<open>ret['changes']['feature']['ExitCode']\<close> while \<^verbatim>\<open>ret['changes']\<close> is still
  empty: the invocation ends in \<open>KeyError\<close> for \<open>feature\<close> and no report is
  returned. Here the install of Web-Server fails with exit code 1603.
\<close>

theorem installed_failure_ends_in_key_error:
  "installed (example_ctx False \<lparr>Success = False, DisplayName = ''Web Server (IIS)'', ExitCode = 1603\<rparr>)
     ''Web-Server'' False False [] =
   \<lparr>outcome = Inl (KeyError ''feature''),
    trace = [ListInstalled, Install ''Web-Server'' False],
    world = []\<rparr>"
  by (simp add: installed_def installed_apply_def example_ctx_def dict_has_def dict_get_def)

text \<open>
  Claim C3 says: for every input and every collaborator response, \<open>installed\<close> and
  \<open>removed\<close> surface failures only through the result and comment of the returned
  report and never raise. The code raises on every path that mutates. Here
  \<open>removed\<close> is called for the installed feature Web-Server: with an operation
  result whose \<open>Success\<close> is false, line 125 raises \<open>KeyError\<close> for \<open>feature\<close>;
  with one whose \<open>Success\<close> is true, line 128 raises \<open>NameError\<close> for \<open>salt\<close>.
\<close>

theorem removed_raises_past_boundary:
  "removed (example_ctx False \<lparr>Success = False, DisplayName = ''Web Server (IIS)'', ExitCode = 1603\<rparr>)
     ''Web-Server'' [(''Web-Server'', ''Web Server (IIS)'')] =
   \<lparr>outcome = Inl (KeyError ''feature''),
    trace = [ListInstalled, Remove ''Web-Server''],
    world = [(''Web-Server'', ''Web Server (IIS)'')]\<rparr>
   \<and> removed (example_ctx False \<lparr>Success = True, DisplayName = ''Web Server (IIS)'', ExitCode = 0\<rparr>)
     ''Web-Server'' [(''Web-Server'', ''Web Server (IIS)'')] =
   \<lparr>outcome = Inl (NameError ''salt''),
    trace = [ListInstalled, Remove ''Web-Server'', ListInstalled],
    world = []\<rparr>"
  by (simp add: removed_def example_ctx_def dict_has_def dict_get_def
      load_global_def module_globals_def)

text \<open>
  Claim C9 says: whenever \<open>installed\<close> reaches the phase after the mutation, the
  final report's changes equal the diff of the two snapshots, whether or not the
  operation result was recorded under \<^verbatim>\<open>changes['feature']\<close> before. The code has
  no final report on that path: the diff step raises \<open>NameError\<close> for \<open>salt\<close>. Both
  alternatives are evaluated: a display name without the words "already installed"
  (the operation result is recorded), and one with them (it is not).
\<close>

theorem installed_diff_step_yields_no_report:
  "outcome (installed (example_ctx False \<lparr>Success = True, DisplayName = ''Web Server (IIS)'', ExitCode = 0\<rparr>)
              ''Web-Server'' True False []) = Inl (NameError ''salt'')
   \<and> outcome (installed (example_ctx False
                 \<lparr>Success = True, DisplayName = ''Web Server (IIS) is already installed'', ExitCode = 0\<rparr>)
              ''Web-Server'' True True [(''Web-Server'', ''Web Server (IIS)'')]) = Inl (NameError ''salt'')"
  by (simp add: installed_def installed_apply_def example_ctx_def dict_has_def
      load_global_def module_globals_def)

end
